theory Spec2Isabelle
  imports Main "HOL-Library.Word"
begin

section \<open>The SPDIF duplex (DID) stub driver, spdif\_duplex.c\<close>

text \<open>
  The driver is one probe function over static tables. The tables are constants below;
  the one table the probe writes, \<open>duplex_stub_dai\<close>, is a C \<open>static\<close> object of the
  module, so it is a field of the module's state and the probe passes that state through.
  The kernel functions the probe calls (\<open>of_property_read_u32\<close>,
  \<open>devm_snd_soc_register_component\<close>) are not part of the file: the first is modelled
  on a device node given as a finite map, the second is a parameter of the probe, and
  every call of it is recorded in the state.
\<close>

subsection \<open>Rate and format masks\<close>

text \<open>
  \<open>rates\<close> and \<open>formats\<close> are bit masks in C, with one bit per rate or format. The bit
  positions are given in the kernel's sound/pcm.h, which is not under src, so a mask is
  modelled as the set of the flags it holds and \<open>|\<close> as union.
\<close>

datatype snd_pcm_rate =
    SNDRV_PCM_RATE_5512 | SNDRV_PCM_RATE_8000 | SNDRV_PCM_RATE_11025
  | SNDRV_PCM_RATE_16000 | SNDRV_PCM_RATE_22050 | SNDRV_PCM_RATE_32000
  | SNDRV_PCM_RATE_44100 | SNDRV_PCM_RATE_48000 | SNDRV_PCM_RATE_64000
  | SNDRV_PCM_RATE_88200 | SNDRV_PCM_RATE_96000 | SNDRV_PCM_RATE_176400
  | SNDRV_PCM_RATE_192000

datatype snd_pcm_fmtbit =
    SNDRV_PCM_FMTBIT_S8 | SNDRV_PCM_FMTBIT_U8
  | SNDRV_PCM_FMTBIT_S16_LE | SNDRV_PCM_FMTBIT_S16_BE
  | SNDRV_PCM_FMTBIT_S20_3LE | SNDRV_PCM_FMTBIT_S20_3BE
  | SNDRV_PCM_FMTBIT_S24_LE | SNDRV_PCM_FMTBIT_S24_BE
  | SNDRV_PCM_FMTBIT_S32_LE | SNDRV_PCM_FMTBIT_S32_BE
  | SNDRV_PCM_FMTBIT_IEC958_SUBFRAME_LE | SNDRV_PCM_FMTBIT_IEC958_SUBFRAME_BE

text \<open>
  Modelled from the spec: the macro \<open>SNDRV_PCM_RATE_8000_96000\<close> of sound/pcm.h is
  missing from src; the spec describes it as one contiguous band of the standard audio
  sample rates, here the standard rates from 8000 to 96000.
\<close>

definition SNDRV_PCM_RATE_8000_96000 :: "snd_pcm_rate set" where
  "SNDRV_PCM_RATE_8000_96000 =
     {SNDRV_PCM_RATE_8000, SNDRV_PCM_RATE_11025, SNDRV_PCM_RATE_16000,
      SNDRV_PCM_RATE_22050, SNDRV_PCM_RATE_32000, SNDRV_PCM_RATE_44100,
      SNDRV_PCM_RATE_48000, SNDRV_PCM_RATE_64000, SNDRV_PCM_RATE_88200,
      SNDRV_PCM_RATE_96000}"

definition STUB_RATES :: "snd_pcm_rate set" where
  "STUB_RATES = SNDRV_PCM_RATE_8000_96000"

definition STUB_FORMATS :: "snd_pcm_fmtbit set" where
  "STUB_FORMATS =
     {SNDRV_PCM_FMTBIT_S16_LE} \<union> {SNDRV_PCM_FMTBIT_S20_3LE} \<union>
     {SNDRV_PCM_FMTBIT_S24_LE} \<union> {SNDRV_PCM_FMTBIT_S32_LE} \<union>
     {SNDRV_PCM_FMTBIT_IEC958_SUBFRAME_LE}"

subsection \<open>Widgets, routes and the component driver\<close>

datatype snd_soc_dapm_type = snd_soc_dapm_input | snd_soc_dapm_output

record snd_soc_dapm_widget =
  widget_id :: snd_soc_dapm_type
  widget_name :: string

definition SND_SOC_DAPM_INPUT :: "string \<Rightarrow> snd_soc_dapm_widget" where
  "SND_SOC_DAPM_INPUT wname = \<lparr>widget_id = snd_soc_dapm_input, widget_name = wname\<rparr>"

definition SND_SOC_DAPM_OUTPUT :: "string \<Rightarrow> snd_soc_dapm_widget" where
  "SND_SOC_DAPM_OUTPUT wname = \<lparr>widget_id = snd_soc_dapm_output, widget_name = wname\<rparr>"

text \<open>
  A route is written positionally in the source, \<open>{ a, NULL, b }\<close>. The kernel's
  \<open>struct snd_soc_dapm_route\<close> declares its members in the order sink, control,
  source: the first string names the widget that is fed, the third the widget that
  feeds it. \<open>NULL\<close> is \<open>None\<close>.
\<close>

record snd_soc_dapm_route =
  sink :: string
  control :: "string option"
  source :: string

definition duplex_widgets :: "snd_soc_dapm_widget list" where
  "duplex_widgets = [SND_SOC_DAPM_INPUT ''spdif-in'', SND_SOC_DAPM_OUTPUT ''spdif-out'']"

definition duplex_routes :: "snd_soc_dapm_route list" where
  "duplex_routes =
     [\<lparr>sink = ''Capture'', control = None, source = ''spdif-in''\<rparr>,
      \<lparr>sink = ''Playback'', control = None, source = ''spdif-out''\<rparr>]"

record snd_soc_component_driver =
  dapm_widgets :: "snd_soc_dapm_widget list"
  num_dapm_widgets :: nat
  dapm_routes :: "snd_soc_dapm_route list"
  num_dapm_routes :: nat
  idle_bias_on :: bool
  use_pmdown_time :: bool
  endianness :: bool

definition soc_codec_spdif_duplex :: snd_soc_component_driver where
  "soc_codec_spdif_duplex =
     \<lparr>dapm_widgets = duplex_widgets,
      num_dapm_widgets = length duplex_widgets,
      dapm_routes = duplex_routes,
      num_dapm_routes = length duplex_routes,
      idle_bias_on = True,
      use_pmdown_time = True,
      endianness = True\<rparr>"

subsection \<open>The endpoint descriptor\<close>

record snd_soc_pcm_stream =
  stream_name :: string
  channels_min :: "32 word"
  channels_max :: "32 word"
  rates :: "snd_pcm_rate set"
  formats :: "snd_pcm_fmtbit set"

record snd_soc_dai_driver =
  dai_name :: string
  capture :: snd_soc_pcm_stream
  playback :: snd_soc_pcm_stream

text \<open>The static initialiser of \<open>duplex_stub_dai\<close>: its value when the module is loaded.\<close>

definition duplex_stub_dai :: snd_soc_dai_driver where
  "duplex_stub_dai =
     \<lparr>dai_name = ''did-hifi'',
      capture =
        \<lparr>stream_name = ''Capture'',
         channels_min = 1,
         channels_max = 384,
         rates = STUB_RATES,
         formats = STUB_FORMATS\<rparr>,
      playback =
        \<lparr>stream_name = ''Playback'',
         channels_min = 1,
         channels_max = 384,
         rates = STUB_RATES,
         formats = STUB_FORMATS\<rparr>\<rparr>"

subsection \<open>Device nodes and \<open>of_property_read_u32\<close>\<close>

text \<open>
  A device-tree node maps property names to values. A property either holds (at least)
  one 32-bit cell or cannot be read as one.
\<close>

datatype of_property = OF_U32 "32 word" | OF_NOT_U32

type_synonym device_node = "string \<rightharpoonup> of_property"

record device =
  of_node :: "device_node option"

record platform_device =
  dev :: device

text \<open>
  Modelled from the spec: \<open>of_property_read_u32\<close> is the kernel's accessor, missing from
  src. The spec: "if present, parse as an unsigned integer; if the parse succeeds" the
  value is used, otherwise the caller's variable keeps what it held. The model returns
  the error code (0, or a negative errno) and the contents of \<open>*out_value\<close> after the
  call; a \<open>NULL\<close> node has no property.
\<close>

definition of_find_property :: "device_node option \<Rightarrow> string \<Rightarrow> of_property option" where
  "of_find_property np propname = (case np of None \<Rightarrow> None | Some n \<Rightarrow> n propname)"

definition of_property_read_u32 ::
  "device_node option \<Rightarrow> string \<Rightarrow> 32 word \<Rightarrow> int \<times> 32 word" where
  "of_property_read_u32 np propname out_value =
     (case of_find_property np propname of
        None \<Rightarrow> (- 22, out_value)
      | Some OF_NOT_U32 \<Rightarrow> (- 75, out_value)
      | Some (OF_U32 v) \<Rightarrow> (0, v))"

subsection \<open>The module state and the probe\<close>

text \<open>
  One call of \<open>devm_snd_soc_register_component\<close>: the device, the component driver, the
  contents of the DAI driver the pointer refers to at the time of the call, and the
  number of DAIs.
\<close>

record register_call =
  reg_dev :: device
  reg_component :: snd_soc_component_driver
  reg_dai :: snd_soc_dai_driver
  reg_num_dai :: nat

text \<open>
  The state of the loaded module: the static object \<open>duplex_stub_dai\<close>, shared by every
  run of the probe, and the registration calls made so far, oldest first.
\<close>

record module_state =
  stub_dai :: snd_soc_dai_driver
  registered :: "register_call list"

definition init_state :: module_state where
  "init_state = \<lparr>stub_dai = duplex_stub_dai, registered = []\<rparr>"

text \<open>
  The probe. Its first parameter stands for the external
  \<open>devm_snd_soc_register_component\<close>, which gives the return code of a call. The result
  is the probe's return value and the state it leaves.
\<close>

definition spdif_duplex_probe ::
  "(register_call \<Rightarrow> int) \<Rightarrow> platform_device \<Rightarrow> module_state \<Rightarrow> int \<times> module_state" where
  "spdif_duplex_probe devm_snd_soc_register_component pdev st0 =
     (let np = of_node (dev pdev);
          val = 2;
          val = snd (of_property_read_u32 np ''capture-channels'' val);
          st1 = (if val < 385 \<and> val mod 2 = 0
                 then st0\<lparr>stub_dai := (stub_dai st0)
                        \<lparr>capture := (capture (stub_dai st0))\<lparr>channels_max := val\<rparr>\<rparr>\<rparr>
                 else st0);
          val = 2;
          val = snd (of_property_read_u32 np ''playback-channels'' val);
          st2 = (if val < 385 \<and> val mod 2 = 0
                 then st1\<lparr>stub_dai := (stub_dai st1)
                        \<lparr>playback := (playback (stub_dai st1))\<lparr>channels_max := val\<rparr>\<rparr>\<rparr>
                 else st1);
          call = \<lparr>reg_dev = dev pdev,
                  reg_component = soc_codec_spdif_duplex,
                  reg_dai = stub_dai st2,
                  reg_num_dai = 1\<rparr>
      in (devm_snd_soc_register_component call,
          st2\<lparr>registered := registered st2 @ [call]\<rparr>))"

subsection \<open>The platform driver\<close>

definition spdif_duplex_dt_ids :: "string list" where
  "spdif_duplex_dt_ids = [''linux,spdif-did'']"

record platform_driver =
  probe :: "(register_call \<Rightarrow> int) \<Rightarrow> platform_device \<Rightarrow> module_state \<Rightarrow> int \<times> module_state"
  driver_name :: string
  of_match_table :: "string list"

definition spdif_duplex_driver :: platform_driver where
  "spdif_duplex_driver =
     \<lparr>probe = spdif_duplex_probe,
      driver_name = ''spdif-did'',
      of_match_table = spdif_duplex_dt_ids\<rparr>"

text \<open>
  The driver core calls the driver's \<open>probe\<close> once for each device it attaches. A
  history of attachments is a list of devices, each with the behaviour of the
  registration facility at that attachment.
\<close>

fun attach_all ::
  "((register_call \<Rightarrow> int) \<times> platform_device) list \<Rightarrow> module_state \<Rightarrow> module_state" where
  "attach_all [] st = st"
| "attach_all ((reg, pdev) # rest) st =
     attach_all rest (snd (probe spdif_duplex_driver reg pdev st))"

subsection \<open>Notions used to state the properties\<close>

text \<open>A device whose node is \<open>n\<close>; a concrete node is written \<open>map_of [(name, value), ...]\<close>.\<close>

definition pdev_of :: "device_node \<Rightarrow> platform_device" where
  "pdev_of n = \<lparr>dev = \<lparr>of_node = Some n\<rparr>\<rparr>"

text \<open>A registration facility that answers every call with the code \<open>rc\<close>.\<close>

definition registration_result :: "int \<Rightarrow> register_call \<Rightarrow> int" where
  "registration_result rc call = rc"

text \<open>
  A field causes an assignment to \<open>channels_max\<close> when it cannot be read (the
  default 2 is assigned) or holds a value that passes the check of the probe.
\<close>

definition field_assigns :: "of_property option \<Rightarrow> bool" where
  "field_assigns f =
     (case f of Some (OF_U32 v) \<Rightarrow> unat v < 385 \<and> even (unat v) | _ \<Rightarrow> True)"



abbreviation after_probe ::
  "(register_call \<Rightarrow> int) \<Rightarrow> platform_device \<Rightarrow> module_state \<Rightarrow> module_state" where
  "after_probe reg pdev st \<equiv> snd (spdif_duplex_probe reg pdev st)"

abbreviation capture_max :: "module_state \<Rightarrow> 32 word" where
  "capture_max st \<equiv> channels_max (capture (stub_dai st))"

abbreviation playback_max :: "module_state \<Rightarrow> 32 word" where
  "playback_max st \<equiv> channels_max (playback (stub_dai st))"

abbreviation capture_field :: "platform_device \<Rightarrow> of_property option" where
  "capture_field pdev \<equiv> of_find_property (of_node (dev pdev)) ''capture-channels''"

abbreviation playback_field :: "platform_device \<Rightarrow> of_property option" where
  "playback_field pdev \<equiv> of_find_property (of_node (dev pdev)) ''playback-channels''"

section \<open>Basic facts about the probe\<close>

lemma even_unat_u32: "even (unat v) = even v" for v :: "32 word"
  by (metis even_of_nat mult.right_neutral unsigned_1 word_arith_nat_mult)

lemma valid_channels_iff:
  "(v < 385 \<and> v mod 2 = 0) = (unat v < 385 \<and> even (unat v))" for v :: "32 word"
  by (simp add: word_less_nat_alt even_iff_mod_2_eq_zero [symmetric] even_unat_u32)

lemma probe_capture:
  "capture (stub_dai (after_probe reg pdev st)) =
     (case capture_field pdev of
        Some (OF_U32 v) \<Rightarrow>
          if unat v < 385 \<and> even (unat v) then (capture (stub_dai st))\<lparr>channels_max := v\<rparr>
          else capture (stub_dai st)
      | _ \<Rightarrow> (capture (stub_dai st))\<lparr>channels_max := 2\<rparr>)"
  by (simp add: spdif_duplex_probe_def of_property_read_u32_def Let_def
        valid_channels_iff [symmetric] split: option.split of_property.split)

lemma probe_playback:
  "playback (stub_dai (after_probe reg pdev st)) =
     (case playback_field pdev of
        Some (OF_U32 v) \<Rightarrow>
          if unat v < 385 \<and> even (unat v) then (playback (stub_dai st))\<lparr>channels_max := v\<rparr>
          else playback (stub_dai st)
      | _ \<Rightarrow> (playback (stub_dai st))\<lparr>channels_max := 2\<rparr>)"
  by (simp add: spdif_duplex_probe_def of_property_read_u32_def Let_def
        valid_channels_iff [symmetric] split: option.split of_property.split)

lemma probe_dai_name:
  "dai_name (stub_dai (after_probe reg pdev st)) = dai_name (stub_dai st)"
  by (simp add: spdif_duplex_probe_def Let_def)

lemma probe_registered:
  "registered (after_probe reg pdev st) =
     registered st @
       [\<lparr>reg_dev = dev pdev, reg_component = soc_codec_spdif_duplex,
         reg_dai = stub_dai (after_probe reg pdev st), reg_num_dai = 1\<rparr>]"
  by (simp add: spdif_duplex_probe_def Let_def)


lemma probe_ret:
  "fst (spdif_duplex_probe reg pdev st) =
     reg \<lparr>reg_dev = dev pdev, reg_component = soc_codec_spdif_duplex,
          reg_dai = stub_dai (after_probe reg pdev st), reg_num_dai = 1\<rparr>"
  by (simp add: spdif_duplex_probe_def Let_def)

lemma field_of_pdev_of:
  "of_find_property (of_node (dev (pdev_of n))) propname = n propname"
  by (simp add: pdev_of_def of_find_property_def)

lemma probe_channels_min:
  "channels_min (capture (stub_dai (after_probe reg pdev st))) =
     channels_min (capture (stub_dai st))"
  "channels_min (playback (stub_dai (after_probe reg pdev st))) =
     channels_min (playback (stub_dai st))"
  by (simp_all add: probe_capture probe_playback split: option.split of_property.split)

lemma probe_fixed_fields:
  "stream_name (capture (stub_dai (after_probe reg pdev st))) =
     stream_name (capture (stub_dai st))"
  "rates (capture (stub_dai (after_probe reg pdev st))) = rates (capture (stub_dai st))"
  "formats (capture (stub_dai (after_probe reg pdev st))) = formats (capture (stub_dai st))"
  "stream_name (playback (stub_dai (after_probe reg pdev st))) =
     stream_name (playback (stub_dai st))"
  "rates (playback (stub_dai (after_probe reg pdev st))) = rates (playback (stub_dai st))"
  "formats (playback (stub_dai (after_probe reg pdev st))) = formats (playback (stub_dai st))"
  by (simp_all add: probe_capture probe_playback split: option.split of_property.split)

lemma probe_capture_reset:
  "(capture (stub_dai (after_probe reg pdev st)))\<lparr>channels_max := c\<rparr> =
     (capture (stub_dai st))\<lparr>channels_max := c\<rparr>"
  "(playback (stub_dai (after_probe reg pdev st)))\<lparr>channels_max := c\<rparr> =
     (playback (stub_dai st))\<lparr>channels_max := c\<rparr>"
  by (simp_all add: probe_capture probe_playback split: option.split of_property.split)

lemma attach_all_fixed:
  "dai_name (stub_dai (attach_all h st)) = dai_name (stub_dai st) \<and>
   stream_name (capture (stub_dai (attach_all h st))) = stream_name (capture (stub_dai st)) \<and>
   channels_min (capture (stub_dai (attach_all h st))) = channels_min (capture (stub_dai st)) \<and>
   rates (capture (stub_dai (attach_all h st))) = rates (capture (stub_dai st)) \<and>
   formats (capture (stub_dai (attach_all h st))) = formats (capture (stub_dai st)) \<and>
   stream_name (playback (stub_dai (attach_all h st))) = stream_name (playback (stub_dai st)) \<and>
   channels_min (playback (stub_dai (attach_all h st))) = channels_min (playback (stub_dai st)) \<and>
   rates (playback (stub_dai (attach_all h st))) = rates (playback (stub_dai st)) \<and>
   formats (playback (stub_dai (attach_all h st))) = formats (playback (stub_dai st))"
proof (induction h st rule: attach_all.induct)
  case (1 st)
  show ?case by simp
next
  case (2 reg pdev rest st)
  then show ?case
    by (simp add: spdif_duplex_driver_def probe_dai_name probe_channels_min probe_fixed_fields)
qed

section \<open>Channel-count maxima\<close>

text \<open>
  C1, as stated: when a channel-count field is absent, or present with a value that is
  odd or at least 385, the maximum of that direction is 2 after the probe, so that a
  missing field and an invalid one leave the same state. The probe does not do this: on
  the first attachment, \<open>capture-channels = 7\<close> leaves the capture maximum at 384, the
  value of the static initialiser, while an absent field gives 2.
\<close>

theorem invalid_field_not_default_counterexample:
  "capture_field (pdev_of (map_of [(''capture-channels'', OF_U32 7)])) = Some (OF_U32 7) \<and>
   odd (unat (7 :: 32 word)) \<and>
   capture_max (after_probe (registration_result 0)
      (pdev_of (map_of [(''capture-channels'', OF_U32 7)])) init_state) = 384 \<and>
   capture_max (after_probe (registration_result 0)
      (pdev_of (map_of [(''capture-channels'', OF_U32 7)])) init_state) \<noteq> 2 \<and>
   capture_field (pdev_of (map_of [])) = None \<and>
   capture_max (after_probe (registration_result 0) (pdev_of (map_of [])) init_state) = 2"
  by (simp add: probe_capture field_of_pdev_of init_state_def duplex_stub_dai_def)

text \<open>
  C1, amended: when a channel-count field is absent, the maximum of that direction is 2
  after the probe. When the field is present with a value that is odd or at least 385,
  the probe leaves the maximum of that direction at the value it had before the probe
  (384 on the first attachment).
\<close>

theorem absent_field_default_invalid_field_unchanged:
  "(capture_field pdev = None \<longrightarrow> capture_max (after_probe reg pdev st) = 2) \<and>
   (playback_field pdev = None \<longrightarrow> playback_max (after_probe reg pdev st) = 2) \<and>
   (capture_field pdev' = Some (OF_U32 v) \<and> (385 \<le> unat v \<or> odd (unat v))
      \<longrightarrow> capture_max (after_probe reg pdev' st) = capture_max st) \<and>
   (playback_field pdev' = Some (OF_U32 w) \<and> (385 \<le> unat w \<or> odd (unat w))
      \<longrightarrow> playback_max (after_probe reg pdev' st) = playback_max st)"
  by (auto simp add: probe_capture probe_playback)

text \<open>
  C1, amended, at concrete inputs: a node without fields, and a node with
  \<open>capture-channels = 7\<close> and \<open>playback-channels = 500\<close>, each probed in the initial
  state.
\<close>

theorem absent_field_default_invalid_field_unchanged_witness:
  "capture_field (pdev_of (map_of [])) = None \<and>
   playback_field (pdev_of (map_of [])) = None \<and>
   capture_field (pdev_of (map_of [(''capture-channels'', OF_U32 7),
                                   (''playback-channels'', OF_U32 500)])) = Some (OF_U32 7) \<and>
   odd (unat (7 :: 32 word)) \<and>
   playback_field (pdev_of (map_of [(''capture-channels'', OF_U32 7),
                                    (''playback-channels'', OF_U32 500)])) = Some (OF_U32 500) \<and>
   385 \<le> unat (500 :: 32 word) \<and>
   capture_max (after_probe (registration_result 0) (pdev_of (map_of [])) init_state) = 2 \<and>
   playback_max (after_probe (registration_result 0) (pdev_of (map_of [])) init_state) = 2 \<and>
   capture_max (after_probe (registration_result 0)
      (pdev_of (map_of [(''capture-channels'', OF_U32 7),
                        (''playback-channels'', OF_U32 500)])) init_state) = 384 \<and>
   playback_max (after_probe (registration_result 0)
      (pdev_of (map_of [(''capture-channels'', OF_U32 7),
                        (''playback-channels'', OF_U32 500)])) init_state) = 384"
proof -
  let ?none = "pdev_of (map_of [])"
  let ?bad = "pdev_of (map_of [(''capture-channels'', OF_U32 7),
                               (''playback-channels'', OF_U32 500)])"
  let ?r = "registration_result 0"
  note T = absent_field_default_invalid_field_unchanged
             [of ?none ?r init_state ?bad 7 500]
  have h1: "capture_field ?none = None" and h2: "playback_field ?none = None"
    by (simp_all add: field_of_pdev_of)
  have h3: "capture_field ?bad = Some (OF_U32 7) \<and> odd (unat (7 :: 32 word))"
    by (simp add: field_of_pdev_of)
  have h4: "playback_field ?bad = Some (OF_U32 500) \<and> 385 \<le> unat (500 :: 32 word)"
    by (simp add: field_of_pdev_of)
  have i: "capture_max init_state = 384" "playback_max init_state = 384"
    by (simp_all add: init_state_def duplex_stub_dai_def)
  have c1: "capture_max (after_probe ?r ?none init_state) = 2"
    using T h1 by blast
  have c2: "playback_max (after_probe ?r ?none init_state) = 2"
    using T h2 by blast
  have c3: "capture_max (after_probe ?r ?bad init_state) = 384"
    using T h3 i(1) by metis
  have c4: "playback_max (after_probe ?r ?bad init_state) = 384"
    using T h4 i(2) by metis
  from h1 h2 h3 h4 c1 c2 c3 c4 show ?thesis by blast
qed

text \<open>
  C2: a value below 385 and even, given in \<open>capture-channels\<close> (respectively
  \<open>playback-channels\<close>), is the capture (respectively playback) channel-count maximum
  after the probe, whatever the state before.
\<close>

theorem valid_field_becomes_max:
  "(capture_field pdev = Some (OF_U32 v) \<and> unat v < 385 \<and> even (unat v)
      \<longrightarrow> capture_max (after_probe reg pdev st) = v) \<and>
   (playback_field pdev = Some (OF_U32 w) \<and> unat w < 385 \<and> even (unat w)
      \<longrightarrow> playback_max (after_probe reg pdev st) = w)"
  by (simp add: probe_capture probe_playback)

text \<open>
  C2 at a concrete input: \<open>capture-channels = 8\<close> and \<open>playback-channels = 384\<close>, the
  upper boundary.
\<close>

theorem valid_field_becomes_max_witness:
  "capture_field (pdev_of (map_of [(''capture-channels'', OF_U32 8),
                                   (''playback-channels'', OF_U32 384)])) = Some (OF_U32 8) \<and>
   unat (8 :: 32 word) < 385 \<and> even (unat (8 :: 32 word)) \<and>
   playback_field (pdev_of (map_of [(''capture-channels'', OF_U32 8),
                                    (''playback-channels'', OF_U32 384)])) = Some (OF_U32 384) \<and>
   unat (384 :: 32 word) < 385 \<and> even (unat (384 :: 32 word)) \<and>
   capture_max (after_probe (registration_result 0)
      (pdev_of (map_of [(''capture-channels'', OF_U32 8),
                        (''playback-channels'', OF_U32 384)])) init_state) = 8 \<and>
   playback_max (after_probe (registration_result 0)
      (pdev_of (map_of [(''capture-channels'', OF_U32 8),
                        (''playback-channels'', OF_U32 384)])) init_state) = 384"
proof -
  let ?p = "pdev_of (map_of [(''capture-channels'', OF_U32 8),
                             (''playback-channels'', OF_U32 384)])"
  note T = valid_field_becomes_max
             [of ?p 8 "registration_result 0" init_state 384]
  have hc: "capture_field ?p = Some (OF_U32 8) \<and>
            unat (8 :: 32 word) < 385 \<and> even (unat (8 :: 32 word))"
    by (simp add: field_of_pdev_of)
  have hp: "playback_field ?p = Some (OF_U32 384) \<and>
            unat (384 :: 32 word) < 385 \<and> even (unat (384 :: 32 word))"
    by (simp add: field_of_pdev_of)
  have c: "capture_max (after_probe (registration_result 0) ?p init_state) = 8"
    using T hc by blast
  have p: "playback_max (after_probe (registration_result 0) ?p init_state) = 384"
    using T hp by blast
  from hc hp c p show ?thesis by blast
qed

text \<open>
  C3: before any probe both maxima are 384, the static initialiser. A field that is
  present with an odd value or a value of at least 385 leaves the maximum of its
  direction at the value it had before the probe. The maximum changes only by the
  assignment of 2 for a field that cannot be read, or of the value of a valid field.
\<close>

theorem invalid_field_keeps_previous_max:
  "capture_max init_state = 384 \<and> playback_max init_state = 384 \<and>
   (capture_field pdev = Some (OF_U32 v) \<and> (385 \<le> unat v \<or> odd (unat v))
      \<longrightarrow> capture_max (after_probe reg pdev st) = capture_max st) \<and>
   (playback_field pdev = Some (OF_U32 w) \<and> (385 \<le> unat w \<or> odd (unat w))
      \<longrightarrow> playback_max (after_probe reg pdev st) = playback_max st) \<and>
   (capture_max (after_probe reg pdev st) = capture_max st \<or>
    capture_max (after_probe reg pdev st) = 2 \<and>
      (capture_field pdev = None \<or> capture_field pdev = Some OF_NOT_U32) \<or>
    capture_field pdev = Some (OF_U32 (capture_max (after_probe reg pdev st))) \<and>
      unat (capture_max (after_probe reg pdev st)) < 385 \<and>
      even (unat (capture_max (after_probe reg pdev st)))) \<and>
   (playback_max (after_probe reg pdev st) = playback_max st \<or>
    playback_max (after_probe reg pdev st) = 2 \<and>
      (playback_field pdev = None \<or> playback_field pdev = Some OF_NOT_U32) \<or>
    playback_field pdev = Some (OF_U32 (playback_max (after_probe reg pdev st))) \<and>
      unat (playback_max (after_probe reg pdev st)) < 385 \<and>
      even (unat (playback_max (after_probe reg pdev st))))"
  by (auto simp add: probe_capture probe_playback init_state_def duplex_stub_dai_def
        split: option.split of_property.split)

text \<open>
  C3 at a concrete input: after a first attachment with \<open>capture-channels = 8\<close>, a
  second one with \<open>capture-channels = 7\<close> and \<open>playback-channels = 500\<close> keeps what the
  first left, 8 and 2.
\<close>

theorem invalid_field_keeps_previous_max_witness:
  "capture_field (pdev_of (map_of [(''capture-channels'', OF_U32 7),
                                   (''playback-channels'', OF_U32 500)])) = Some (OF_U32 7) \<and>
   odd (unat (7 :: 32 word)) \<and>
   playback_field (pdev_of (map_of [(''capture-channels'', OF_U32 7),
                                    (''playback-channels'', OF_U32 500)])) = Some (OF_U32 500) \<and>
   385 \<le> unat (500 :: 32 word) \<and>
   capture_max (after_probe (registration_result 0)
      (pdev_of (map_of [(''capture-channels'', OF_U32 7),
                        (''playback-channels'', OF_U32 500)]))
      (after_probe (registration_result 0)
         (pdev_of (map_of [(''capture-channels'', OF_U32 8)])) init_state)) = 8 \<and>
   playback_max (after_probe (registration_result 0)
      (pdev_of (map_of [(''capture-channels'', OF_U32 7),
                        (''playback-channels'', OF_U32 500)]))
      (after_probe (registration_result 0)
         (pdev_of (map_of [(''capture-channels'', OF_U32 8)])) init_state)) = 2"
proof -
  let ?bad = "pdev_of (map_of [(''capture-channels'', OF_U32 7),
                               (''playback-channels'', OF_U32 500)])"
  let ?r = "registration_result 0"
  let ?st = "after_probe ?r (pdev_of (map_of [(''capture-channels'', OF_U32 8)])) init_state"
  note T = invalid_field_keeps_previous_max [of ?bad 7 ?r ?st 500]
  have h1: "capture_field ?bad = Some (OF_U32 7) \<and> odd (unat (7 :: 32 word))"
    by (simp add: field_of_pdev_of)
  have h2: "playback_field ?bad = Some (OF_U32 500) \<and> 385 \<le> unat (500 :: 32 word)"
    by (simp add: field_of_pdev_of)
  have i: "capture_max ?st = 8" "playback_max ?st = 2"
    by (simp_all add: probe_capture probe_playback field_of_pdev_of)
  have c1: "capture_max (after_probe ?r ?bad ?st) = 8"
    using T h1 i(1) by metis
  have c2: "playback_max (after_probe ?r ?bad ?st) = 2"
    using T h2 i(2) by metis
  from h1 h2 c1 c2 show ?thesis by blast
qed

text \<open>
  C4: the two directions are computed independently. Setting, removing or invalidating
  the \<open>playback-channels\<close> field (\<open>x\<close> is any property or none), and changing the
  playback stream of the state before the probe, does not change the capture stream the
  probe leaves; and the same with the directions exchanged.
\<close>

theorem directions_independent:
  "capture (stub_dai (after_probe reg (pdev_of (n(''playback-channels'' := x)))
              (st\<lparr>stub_dai := (stub_dai st)\<lparr>playback := q\<rparr>\<rparr>)))
     = capture (stub_dai (after_probe reg' (pdev_of n) st)) \<and>
   playback (stub_dai (after_probe reg (pdev_of (n(''capture-channels'' := y)))
              (st\<lparr>stub_dai := (stub_dai st)\<lparr>capture := q\<rparr>\<rparr>)))
     = playback (stub_dai (after_probe reg' (pdev_of n) st))"
  by (simp add: probe_capture probe_playback field_of_pdev_of
        split: option.split of_property.split)

text \<open>
  C10: 0 passes the check of the probe (it is even and below 385), so a field equal to
  0 sets the maximum of its direction to 0, below the minimum, which stays 1: nothing
  enforces that the minimum is at most the maximum.
\<close>

theorem zero_channels_accepted:
  "unat (0 :: 32 word) < 385 \<and> even (unat (0 :: 32 word)) \<and>
   capture_max (after_probe (registration_result 0)
      (pdev_of (map_of [(''capture-channels'', OF_U32 0),
                        (''playback-channels'', OF_U32 0)])) init_state) = 0 \<and>
   playback_max (after_probe (registration_result 0)
      (pdev_of (map_of [(''capture-channels'', OF_U32 0),
                        (''playback-channels'', OF_U32 0)])) init_state) = 0 \<and>
   channels_min (capture (stub_dai (after_probe (registration_result 0)
      (pdev_of (map_of [(''capture-channels'', OF_U32 0),
                        (''playback-channels'', OF_U32 0)])) init_state))) = 1 \<and>
   channels_min (playback (stub_dai (after_probe (registration_result 0)
      (pdev_of (map_of [(''capture-channels'', OF_U32 0),
                        (''playback-channels'', OF_U32 0)])) init_state))) = 1 \<and>
   capture_max (after_probe (registration_result 0)
      (pdev_of (map_of [(''capture-channels'', OF_U32 0),
                        (''playback-channels'', OF_U32 0)])) init_state)
     < channels_min (capture (stub_dai (after_probe (registration_result 0)
      (pdev_of (map_of [(''capture-channels'', OF_U32 0),
                        (''playback-channels'', OF_U32 0)])) init_state)))"
  by (simp add: probe_capture probe_playback field_of_pdev_of init_state_def
        duplex_stub_dai_def)

section \<open>Channel-count minima\<close>

text \<open>
  C5: after any history of attachments the channel-count minimum of the capture and of
  the playback stream is 1, and the probe, the only operation, leaves both minima as
  they were.
\<close>

theorem channels_min_always_one:
  "channels_min (capture (stub_dai (attach_all h init_state))) = 1 \<and>
   channels_min (playback (stub_dai (attach_all h init_state))) = 1 \<and>
   channels_min (capture (stub_dai (after_probe reg pdev st))) =
     channels_min (capture (stub_dai st)) \<and>
   channels_min (playback (stub_dai (after_probe reg pdev st))) =
     channels_min (playback (stub_dai st))"
  by (simp add: attach_all_fixed probe_channels_min init_state_def duplex_stub_dai_def)

section \<open>Registration\<close>

text \<open>
  C6: the probe should register once per attachment, with one endpoint descriptor and
  two routes, Capture fed by the input pin and the output pin fed by Playback. On a
  node without fields the probe makes exactly one call with one DAI and the two routes of
  \<open>duplex_routes\<close>, but the second route has \<open>Playback\<close> as its sink and \<open>spdif-out\<close>
  as its source: Playback is fed by the output pin. No route feeds \<open>spdif-out\<close> from
  Playback, although \<open>spdif-out\<close> is declared an output widget.
\<close>

theorem playback_route_reversed:
  "registered (after_probe (registration_result 0) (pdev_of (map_of [])) init_state) =
     [\<lparr>reg_dev = dev (pdev_of (map_of [])),
       reg_component = soc_codec_spdif_duplex,
       reg_dai = stub_dai (after_probe (registration_result 0) (pdev_of (map_of [])) init_state),
       reg_num_dai = 1\<rparr>] \<and>
   dapm_routes soc_codec_spdif_duplex =
     [\<lparr>sink = ''Capture'', control = None, source = ''spdif-in''\<rparr>,
      \<lparr>sink = ''Playback'', control = None, source = ''spdif-out''\<rparr>] \<and>
   \<lparr>sink = ''spdif-out'', control = None, source = ''Playback''\<rparr>
     \<notin> set (dapm_routes soc_codec_spdif_duplex) \<and>
   dapm_widgets soc_codec_spdif_duplex =
     [\<lparr>widget_id = snd_soc_dapm_input, widget_name = ''spdif-in''\<rparr>,
      \<lparr>widget_id = snd_soc_dapm_output, widget_name = ''spdif-out''\<rparr>]"
  by (simp add: probe_registered init_state_def soc_codec_spdif_duplex_def
        duplex_routes_def duplex_widgets_def SND_SOC_DAPM_INPUT_def SND_SOC_DAPM_OUTPUT_def)

text \<open>
  C7, as stated: when the registration call fails, no observable partial state remains.
  The probe writes the static descriptor before the call and does not restore it: with
  \<open>capture-channels = 8\<close> and a registration that fails with -12, the capture maximum
  is 8 afterwards, not 384, and a later attachment with the invalid value 7 shows it.
\<close>

theorem failed_registration_leaves_update_counterexample:
  "fst (spdif_duplex_probe (registration_result (- 12))
          (pdev_of (map_of [(''capture-channels'', OF_U32 8)])) init_state) = - 12 \<and>
   capture_max init_state = 384 \<and>
   capture_max (after_probe (registration_result (- 12))
      (pdev_of (map_of [(''capture-channels'', OF_U32 8)])) init_state) = 8 \<and>
   stub_dai (after_probe (registration_result (- 12))
      (pdev_of (map_of [(''capture-channels'', OF_U32 8)])) init_state) \<noteq> stub_dai init_state \<and>
   capture_max (after_probe (registration_result 0)
      (pdev_of (map_of [(''capture-channels'', OF_U32 7)]))
      (after_probe (registration_result (- 12))
         (pdev_of (map_of [(''capture-channels'', OF_U32 8)])) init_state)) = 8 \<and>
   capture_max (after_probe (registration_result 0)
      (pdev_of (map_of [(''capture-channels'', OF_U32 7)])) init_state) = 384"
proof -
  let ?p8 = "pdev_of (map_of [(''capture-channels'', OF_U32 8)])"
  let ?f = "registration_result (- 12)"
  have r: "fst (spdif_duplex_probe ?f ?p8 init_state) = - 12"
    by (simp add: probe_ret registration_result_def)
  have i: "capture_max init_state = 384"
    by (simp add: init_state_def duplex_stub_dai_def)
  have c: "capture_max (after_probe ?f ?p8 init_state) = 8"
    by (simp add: probe_capture field_of_pdev_of)
  have "capture_max (after_probe ?f ?p8 init_state) \<noteq> capture_max init_state"
    unfolding c i by simp
  then have d: "stub_dai (after_probe ?f ?p8 init_state) \<noteq> stub_dai init_state"
    by metis
  have e: "capture_max (after_probe (registration_result 0)
      (pdev_of (map_of [(''capture-channels'', OF_U32 7)]))
      (after_probe ?f ?p8 init_state)) = 8"
    by (simp add: probe_capture field_of_pdev_of)
  have f: "capture_max (after_probe (registration_result 0)
      (pdev_of (map_of [(''capture-channels'', OF_U32 7)])) init_state) = 384"
    by (simp add: probe_capture field_of_pdev_of i)
  from r i c d e f show ?thesis by blast
qed

text \<open>
  C7, amended: the probe returns the code of the registration call unchanged, makes
  exactly one such call and does nothing after it; the state it leaves (the channel
  maxima written before the call, which the call receives) is the same whether the call
  succeeds or fails.
\<close>

theorem registration_code_returned_state_kept:
  "fst (spdif_duplex_probe reg pdev st) = reg (last (registered (after_probe reg pdev st))) \<and>
   registered (after_probe reg pdev st) =
     registered st @ [last (registered (after_probe reg pdev st))] \<and>
   stub_dai (after_probe reg pdev st) = reg_dai (last (registered (after_probe reg pdev st))) \<and>
   after_probe reg pdev st = after_probe reg' pdev st"
proof -
  have l: "last (registered (after_probe reg pdev st)) =
     \<lparr>reg_dev = dev pdev, reg_component = soc_codec_spdif_duplex,
      reg_dai = stub_dai (after_probe reg pdev st), reg_num_dai = 1\<rparr>"
    by (subst probe_registered) simp
  have a: "fst (spdif_duplex_probe reg pdev st) =
             reg (last (registered (after_probe reg pdev st)))"
    by (simp only: l probe_ret)
  have b: "registered (after_probe reg pdev st) =
             registered st @ [last (registered (after_probe reg pdev st))]"
    by (simp only: l) (rule probe_registered)
  have c: "stub_dai (after_probe reg pdev st) =
             reg_dai (last (registered (after_probe reg pdev st)))"
    by (simp add: l)
  have d: "after_probe reg pdev st = after_probe reg' pdev st"
    by (simp add: spdif_duplex_probe_def Let_def)
  from a b c d show ?thesis by blast
qed

text \<open>
  C8, as stated: the descriptor of one run of the probe does not depend on the
  configuration of an earlier run. The descriptor is one static object: a run with
  \<open>capture-channels = 7\<close> leaves the capture maximum 8 after a run with
  \<open>capture-channels = 8\<close>, and 2 after a run without fields.
\<close>

theorem earlier_attachment_visible_counterexample:
  "capture_max (after_probe (registration_result 0)
      (pdev_of (map_of [(''capture-channels'', OF_U32 7)]))
      (after_probe (registration_result 0)
         (pdev_of (map_of [(''capture-channels'', OF_U32 8)])) init_state)) = 8 \<and>
   capture_max (after_probe (registration_result 0)
      (pdev_of (map_of [(''capture-channels'', OF_U32 7)]))
      (after_probe (registration_result 0) (pdev_of (map_of [])) init_state)) = 2 \<and>
   stub_dai (after_probe (registration_result 0)
      (pdev_of (map_of [(''capture-channels'', OF_U32 7)]))
      (after_probe (registration_result 0)
         (pdev_of (map_of [(''capture-channels'', OF_U32 8)])) init_state))
     \<noteq> stub_dai (after_probe (registration_result 0)
      (pdev_of (map_of [(''capture-channels'', OF_U32 7)]))
      (after_probe (registration_result 0) (pdev_of (map_of [])) init_state))"
proof -
  let ?r = "registration_result 0"
  let ?bad = "pdev_of (map_of [(''capture-channels'', OF_U32 7)])"
  let ?a = "after_probe ?r ?bad
              (after_probe ?r (pdev_of (map_of [(''capture-channels'', OF_U32 8)])) init_state)"
  let ?b = "after_probe ?r ?bad (after_probe ?r (pdev_of (map_of [])) init_state)"
  have a: "capture_max ?a = 8"
    by (simp add: probe_capture field_of_pdev_of)
  have b: "capture_max ?b = 2"
    by (simp add: probe_capture field_of_pdev_of)
  have "capture_max ?a \<noteq> capture_max ?b"
    unfolding a b by simp
  then have "stub_dai ?a \<noteq> stub_dai ?b"
    by metis
  with a b show ?thesis by blast
qed

text \<open>
  C8, amended: when each of the two fields of the later run is absent, unreadable or
  valid, the descriptor the later run leaves does not depend on the configuration, or on
  the registration outcome, of the earlier run.
\<close>

theorem later_attachment_independent_when_fields_assign:
  assumes "field_assigns (capture_field pdev2)"
    and "field_assigns (playback_field pdev2)"
  shows "stub_dai (after_probe reg2 pdev2 (after_probe reg1 pdev1 st)) =
         stub_dai (after_probe reg2' pdev2 (after_probe reg1' pdev1' st))"
proof (rule snd_soc_dai_driver.equality)
  show "dai_name (stub_dai (after_probe reg2 pdev2 (after_probe reg1 pdev1 st))) =
        dai_name (stub_dai (after_probe reg2' pdev2 (after_probe reg1' pdev1' st)))"
    by (simp add: probe_dai_name)
next
  from assms(1)
  show "capture (stub_dai (after_probe reg2 pdev2 (after_probe reg1 pdev1 st))) =
        capture (stub_dai (after_probe reg2' pdev2 (after_probe reg1' pdev1' st)))"
    by (subst (1 2) probe_capture)
       (auto simp add: field_assigns_def probe_capture_reset
          split: option.splits of_property.splits)
next
  from assms(2)
  show "playback (stub_dai (after_probe reg2 pdev2 (after_probe reg1 pdev1 st))) =
        playback (stub_dai (after_probe reg2' pdev2 (after_probe reg1' pdev1' st)))"
    by (subst (1 2) probe_playback)
       (auto simp add: field_assigns_def probe_capture_reset
          split: option.splits of_property.splits)
next
  show "snd_soc_dai_driver.more (stub_dai (after_probe reg2 pdev2 (after_probe reg1 pdev1 st))) =
        snd_soc_dai_driver.more (stub_dai (after_probe reg2' pdev2 (after_probe reg1' pdev1' st)))"
    by simp
qed

text \<open>
  C8, amended, at a concrete input: a later run with \<open>capture-channels = 4\<close>, after
  two different earlier runs.
\<close>

theorem later_attachment_independent_when_fields_assign_witness:
  "field_assigns (capture_field (pdev_of (map_of [(''capture-channels'', OF_U32 4)]))) \<and>
   field_assigns (playback_field (pdev_of (map_of [(''capture-channels'', OF_U32 4)]))) \<and>
   stub_dai (after_probe (registration_result 0)
      (pdev_of (map_of [(''capture-channels'', OF_U32 4)]))
      (after_probe (registration_result 0)
         (pdev_of (map_of [(''capture-channels'', OF_U32 8)])) init_state)) =
   stub_dai (after_probe (registration_result 0)
      (pdev_of (map_of [(''capture-channels'', OF_U32 4)]))
      (after_probe (registration_result (- 12))
         (pdev_of (map_of [(''playback-channels'', OF_U32 7)])) init_state))"
proof -
  let ?p2 = "pdev_of (map_of [(''capture-channels'', OF_U32 4)])"
  have h1: "field_assigns (capture_field ?p2)"
    by (simp add: field_of_pdev_of field_assigns_def)
  have h2: "field_assigns (playback_field ?p2)"
    by (simp add: field_of_pdev_of field_assigns_def)
  note T = later_attachment_independent_when_fields_assign [OF h1 h2,
      of "registration_result 0" "registration_result 0"
         "pdev_of (map_of [(''capture-channels'', OF_U32 8)])" init_state
         "registration_result 0" "registration_result (- 12)"
         "pdev_of (map_of [(''playback-channels'', OF_U32 7)])"]
  from h1 h2 T show ?thesis by blast
qed



end
